theory Spec2Isabelle
  imports Complex_Main "HOL-Library.AList"
begin

section \<open>Strings\<close>

text \<open>
  A Python \<open>str\<close> is modelled as a HOL \<open>string\<close>, one \<open>char\<close> per code point
  (so the model covers the code points below 256). The source only ever inspects single
  characters, so every definition below treats a character outside the ASCII range like any
  other character that is not named explicitly.
\<close>

definition replace_char :: "char \<Rightarrow> char \<Rightarrow> string \<Rightarrow> string" where
  \<comment> \<open>\<open>s.replace(old, new)\<close> for one-character \<open>old\<close> and \<open>new\<close>\<close>
  "replace_char old new s = map (\<lambda>c. if c = old then new else c) s"

definition startswith_slash :: "string \<Rightarrow> bool" where
  \<comment> \<open>\<open>name.startswith('/')\<close>\<close>
  "startswith_slash s = (case s of [] \<Rightarrow> False | c # _ \<Rightarrow> c = CHR ''/'')"

definition topic_char :: "char \<Rightarrow> bool" where
  \<comment> \<open>the complement of the class \<open>[^0-9a-zA-Z_/~{}]\<close>\<close>
  "topic_char c =
     (c \<in> set ''0123456789abcdefghijklmnopqrstuvwxyzABCDEFGHIJKLMNOPQRSTUVWXYZ_/~{}'')"

definition re_sub_invalid :: "string \<Rightarrow> string" where
  \<comment> \<open>\<open>re.sub(r'[^0-9a-zA-Z_/~{}]', '_', name)\<close>: every single character matched by the
      negated class (line breaks included) is replaced\<close>
  "re_sub_invalid s = map (\<lambda>c. if topic_char c then c else CHR ''_'') s"

section \<open>Topic Sanitizer\<close>

definition sanitize_topic_name :: "string \<Rightarrow> string" where
  "sanitize_topic_name name0 =
     (let name = replace_char CHR ''.'' CHR ''_'' (replace_char CHR '':'' CHR ''_'' name0);
          name = (if \<not> startswith_slash name then CHR ''/'' # name else name)
      in re_sub_invalid name)"

definition matches_topic_re :: "string \<Rightarrow> bool" where
  \<comment> \<open>the string is \<open>/\<close> followed by characters of the class \<open>[0-9a-zA-Z_/~{}]\<close> only\<close>
  "matches_topic_re s =
     (case s of [] \<Rightarrow> False | c # cs \<Rightarrow> c = CHR ''/'' \<and> list_all topic_char cs)"

section \<open>Exceptions, values and messages\<close>

text \<open>
  The exceptions of the model are instances of Python's \<open>Exception\<close>, which is what both
  \<open>except Exception\<close> clauses of the source catch. \<open>KeyboardInterrupt\<close>, \<open>SystemExit\<close> and
  task cancellation derive from \<open>BaseException\<close> only; they are the shutdown signalling of
  the host and are not part of the model.
\<close>

datatype exn =
    JSONDecodeError
  | UnicodeDecodeError
  | AttributeError
  | TypeError
  | ValueError
  | OverflowError
  | KeyError
  | AssertionError
  | OtherError string  \<comment> \<open>any other \<open>Exception\<close> raised by an external collaborator\<close>

text \<open>
  A Python \<open>float\<close>: a finite value is represented by the real number it denotes (the
  rounding to binary64 is not modelled), next to the two infinities and not-a-number.
\<close>

datatype pyfloat = Fin real | PInf | NInf | NaN

text \<open>
  The values \<open>json.loads\<close> produces. A \<open>dict\<close> is the list of its items in insertion
  order; it stands for a Python dict when its keys are distinct, and \<open>map_of\<close> is the lookup.
\<close>

datatype json =
    JNull
  | JBool bool
  | JInt int
  | JFloat pyfloat
  | JStr string
  | JList "json list"
  | JDict "(string \<times> json) list"

datatype msg_kind =
    AssetMetadata | Alert | Relationship | MachineStatus | TrafficData | WaterManagement
  | EnergyConsumption | ProductionLine | Temperature | Humidity | Pressure | Imu | CropData
  | EnvironmentalData | TrafficLight | Point

text \<open>
  A message object: its class and the fields the source has assigned, in the order of the
  assignments. A field holds a Python value or, for \<open>location\<close>, a \<open>Point\<close> message.
\<close>

datatype msg = Msg (msg_class: msg_kind) (msg_fields: "(string \<times> field_value) list")
  and field_value = Val json | Sub msg

text \<open>The handle \<open>create_publisher\<close> returns: a fresh object, told apart by its number.\<close>

datatype publisher = Publisher (pub_id: nat) (pub_kind: msg_kind) (pub_topic: string)

type_synonym event = "(string \<times> string) list"

datatype log_text =
    CreatedPublisher string
  | ProcessingThing json
  | Published json string msg
  | ErrorProcessing exn
  | ThingCausedError json
  | ConnectingTo
  | FailedToConnect int
  | Connected
  | ReceivedEvent event
  | NonJsonData string
  | ErrorInConnection exn
  | ConnectionClosed

datatype level = Debug | Info | Warn | Error

text \<open>What the node does to the outside, in the order it does it.\<close>

datatype effect =
    Log level log_text
  | Publish publisher msg
  | Sleep nat
  | Connect

record world =
  topic_publishers :: "string \<rightharpoonup> publisher"  \<comment> \<open>\<open>self._topic_publishers\<close>\<close>
  n_created :: nat                                 \<comment> \<open>publishers created so far\<close>
  effects :: "effect list"

definition init_world :: world where
  "init_world = \<lparr>topic_publishers = Map.empty, n_created = 0, effects = []\<rparr>"

text \<open>
  The collaborators whose code is not part of the repository are parameters of the model:
  the node's \<open>debug\<close> parameter, the field checks of the generated message classes, the
  bus (\<open>create_publisher\<close>, \<open>publish\<close>), \<open>json.loads\<close>, and Python's \<open>str()\<close> of a value
  that is not a string. A check answers \<open>None\<close> when the call succeeds and \<open>Some e\<close> when
  it raises \<open>e\<close>.
\<close>

record env =
  debug :: bool
  field_check :: "msg_kind \<Rightarrow> string \<Rightarrow> json \<Rightarrow> exn option"
  create_check :: "msg_kind \<Rightarrow> string \<Rightarrow> exn option"
  publish_check :: "publisher \<Rightarrow> msg \<Rightarrow> exn option"
  json_loads :: "string \<Rightarrow> exn + json"
  str_of :: "json \<Rightarrow> string"

section \<open>Computations with effects and exceptions\<close>

text \<open>
  A statement of the source is a function from the world to an outcome (\<open>Inl\<close> the exception
  raised, \<open>Inr\<close> the value) and the world it leaves behind; the effects made before an
  exception is raised stay made.
\<close>

type_synonym 'a prog = "world \<Rightarrow> (exn + 'a) \<times> world"

definition return :: "'a \<Rightarrow> 'a prog" where
  "return x w = (Inr x, w)"

definition raise :: "exn \<Rightarrow> 'a prog" where
  "raise e w = (Inl e, w)"

definition bind :: "'a prog \<Rightarrow> ('a \<Rightarrow> 'b prog) \<Rightarrow> 'b prog" where
  "bind m f w = (case m w of (Inl e, w') \<Rightarrow> (Inl e, w') | (Inr x, w') \<Rightarrow> f x w')"

definition lift :: "exn + 'a \<Rightarrow> 'a prog" where
  \<comment> \<open>a pure expression that may raise\<close>
  "lift r w = (r, w)"

definition emit :: "effect \<Rightarrow> unit prog" where
  "emit e w = (Inr (), w\<lparr>effects := effects w @ [e]\<rparr>)"

definition logger :: "level \<Rightarrow> log_text \<Rightarrow> unit prog" where
  \<comment> \<open>\<open>self.get_logger().info(...)\<close> and its siblings\<close>
  "logger l t = emit (Log l t)"

section \<open>Publisher Registry\<close>

definition create_publisher :: "env \<Rightarrow> msg_kind \<Rightarrow> string \<Rightarrow> publisher prog" where
  \<comment> \<open>\<open>self.create_publisher(msg_type, topic_name, 10)\<close> of the bus\<close>
  "create_publisher env msg_type topic_name w =
     (case create_check env msg_type topic_name of
        Some e \<Rightarrow> (Inl e, w)
      | None \<Rightarrow> (Inr (Publisher (n_created w) msg_type topic_name),
                 w\<lparr>n_created := Suc (n_created w)\<rparr>))"

definition store_publisher :: "string \<Rightarrow> publisher \<Rightarrow> unit prog" where
  \<comment> \<open>\<open>self._topic_publishers[topic_name] = ...\<close>\<close>
  "store_publisher topic_name p w =
     (Inr (), w\<lparr>topic_publishers := (topic_publishers w)(topic_name \<mapsto> p)\<rparr>)"

definition lookup_publisher :: "string \<Rightarrow> publisher prog" where
  \<comment> \<open>\<open>self._topic_publishers[topic_name]\<close>\<close>
  "lookup_publisher topic_name w =
     (case topic_publishers w topic_name of
        None \<Rightarrow> (Inl KeyError, w)
      | Some p \<Rightarrow> (Inr p, w))"

definition get_or_create_publisher :: "env \<Rightarrow> msg_kind \<Rightarrow> string \<Rightarrow> publisher prog" where
  "get_or_create_publisher env msg_type raw_name w =
     (let topic_name = sanitize_topic_name raw_name in
      bind (if topic_name \<notin> dom (topic_publishers w) then
              bind (create_publisher env msg_type topic_name) (\<lambda>p.
              bind (store_publisher topic_name p) (\<lambda>_.
              logger Info (CreatedPublisher topic_name)))
            else return ())
        (\<lambda>_. lookup_publisher topic_name) w)"

definition creations :: "string \<Rightarrow> world \<Rightarrow> nat" where
  \<comment> \<open>how often the creation of a publisher for the topic has been logged\<close>
  "creations t w = count_list (effects w) (Log Info (CreatedPublisher t))"

definition created_once :: "world \<Rightarrow> bool" where
  \<comment> \<open>one creation event for each topic of the registry, none for any other topic\<close>
  "created_once w =
     (\<forall>t. creations t w = (if t \<in> dom (topic_publishers w) then 1 else 0))"

section \<open>Stream Decoder\<close>

definition is_space :: "char \<Rightarrow> bool" where
  \<comment> \<open>the characters \<open>str.isspace\<close> accepts, among the code points below 256\<close>
  "is_space c =
     (c \<in> set [CHR 0x09, CHR 0x0A, CHR 0x0B, CHR 0x0C, CHR 0x0D, CHR 0x1C, CHR 0x1D,
                CHR 0x1E, CHR 0x1F, CHR '' '', CHR 0x85, CHR 0xA0])"

definition strip :: "string \<Rightarrow> string" where
  \<comment> \<open>\<open>s.strip()\<close>\<close>
  "strip s = rev (dropWhile is_space (rev (dropWhile is_space s)))"

fun split_on :: "char \<Rightarrow> string \<Rightarrow> string list" where
  \<comment> \<open>\<open>s.split(sep)\<close> for a one-character separator\<close>
  "split_on sep [] = [[]]"
| "split_on sep (c # cs) =
     (if c = sep then [] # split_on sep cs
      else (case split_on sep cs of
              x # xs \<Rightarrow> (c # x) # xs
            | [] \<Rightarrow> [[c]]))"  \<comment> \<open>the second case is never taken: a split is not empty\<close>

definition has_colon :: "string \<Rightarrow> bool" where
  \<comment> \<open>\<open>":" in line\<close>\<close>
  "has_colon line = (CHR '':'' \<in> set line)"

definition split_colon :: "string \<Rightarrow> string \<times> string" where
  \<comment> \<open>\<open>line.split(":", 1)\<close> of a line that has a colon\<close>
  "split_colon line =
     (takeWhile (\<lambda>c. c \<noteq> CHR '':'') line, drop 1 (dropWhile (\<lambda>c. c \<noteq> CHR '':'') line))"

definition add_field :: "event \<Rightarrow> string \<Rightarrow> event" where
  \<comment> \<open>the body of the inner loop: \<open>event[key.strip()] = value.strip()\<close> for a line with a
      colon; a dict keeps the place of a key that is assigned again\<close>
  "add_field event line =
     (if has_colon line then
        (let (key, val) = split_colon line in AList.update (strip key) (strip val) event)
      else event)"

definition parse_block :: "string \<Rightarrow> event" where
  \<comment> \<open>the event built from the buffer when a blank line arrives\<close>
  "parse_block buffer = foldl add_field [] (split_on CHR 0x0A buffer)"

text \<open>
  The stream \<open>content\<close> is the list of the outcomes of reading its lines: \<open>Inr s\<close> is a line
  whose UTF-8 decoding is \<open>s\<close>, and \<open>Inl e\<close> is a read or a decoding that raises \<open>e\<close>, which
  ends the generator. The generator has no effects of its own, so it is modelled by the list
  of the events it yields and the exception it ends with, if any.
\<close>

fun sse_loop :: "string \<Rightarrow> (exn + string) list \<Rightarrow> event list \<times> exn option" where
  "sse_loop buffer [] = ([], None)"
| "sse_loop buffer (Inl e # content) = ([], Some e)"
| "sse_loop buffer (Inr raw # content) =
     (let line = strip raw in
      if line \<noteq> [] then sse_loop (buffer @ line @ [CHR 0x0A]) content
      else if buffer \<noteq> [] then
        (let event = parse_block buffer;
             (events, r) = sse_loop [] content
         in (if event \<noteq> [] then event # events else events, r))
      else sse_loop buffer content)"

definition sse_parse :: "(exn + string) list \<Rightarrow> event list \<times> exn option" where
  "sse_parse content = sse_loop [] content"

definition blank :: "string \<Rightarrow> bool" where
  \<comment> \<open>a line that is empty once stripped\<close>
  "blank raw = (strip raw = [])"


section \<open>Python values: lookups and coercions\<close>

fun is_prefix :: "string \<Rightarrow> string \<Rightarrow> bool" where
  "is_prefix [] s = True"
| "is_prefix (c # cs) [] = False"
| "is_prefix (c # cs) (d # ds) = (c = d \<and> is_prefix cs ds)"

fun substring :: "string \<Rightarrow> string \<Rightarrow> bool" where
  \<comment> \<open>\<open>sub in s\<close> for two strings\<close>
  "substring sub [] = (sub = [])"
| "substring sub (c # cs) = (is_prefix sub (c # cs) \<or> substring sub cs)"

fun py_contains :: "json \<Rightarrow> string \<Rightarrow> exn + bool" where
  \<comment> \<open>\<open>key in obj\<close> for a string \<open>key\<close>\<close>
  "py_contains (JDict kvs) key = Inr (key \<in> set (map fst kvs))"
| "py_contains (JStr s) key = Inr (substring key s)"
| "py_contains (JList xs) key = Inr (JStr key \<in> set xs)"
| "py_contains _ key = Inl TypeError"

fun py_getitem :: "json \<Rightarrow> string \<Rightarrow> exn + json" where
  \<comment> \<open>\<open>obj[key]\<close> for a string \<open>key\<close>\<close>
  "py_getitem (JDict kvs) key = (case map_of kvs key of None \<Rightarrow> Inl KeyError | Some v \<Rightarrow> Inr v)"
| "py_getitem _ key = Inl TypeError"

fun py_get :: "json \<Rightarrow> string \<Rightarrow> json \<Rightarrow> exn + json" where
  \<comment> \<open>\<open>obj.get(key, dflt)\<close>: only a dict has the method\<close>
  "py_get (JDict kvs) key dflt = Inr (case map_of kvs key of None \<Rightarrow> dflt | Some v \<Rightarrow> v)"
| "py_get _ key dflt = Inl AttributeError"

fun py_items :: "json \<Rightarrow> exn + (string \<times> json) list" where
  \<comment> \<open>\<open>obj.items()\<close>\<close>
  "py_items (JDict kvs) = Inr kvs"
| "py_items _ = Inl AttributeError"

fun py_bool :: "json \<Rightarrow> bool" where
  \<comment> \<open>\<open>bool(v)\<close>: the truth value of the object, never an exception\<close>
  "py_bool JNull = False"
| "py_bool (JBool b) = b"
| "py_bool (JInt i) = (i \<noteq> 0)"
| "py_bool (JFloat f) = (f \<noteq> Fin 0)"
| "py_bool (JStr s) = (s \<noteq> [])"
| "py_bool (JList xs) = (xs \<noteq> [])"
| "py_bool (JDict kvs) = (kvs \<noteq> [])"

subsection \<open>Numbers written as strings\<close>

text \<open>
  \<open>int(s)\<close> and \<open>float(s)\<close> strip the string, read an optional sign and then the digits
  of Python's grammar, where single underscores may stand between digits; \<open>float\<close> also
  reads a fraction, an exponent, and the words \<open>inf\<close>, \<open>infinity\<close> and \<open>nan\<close> in any
  case. The value of a decimal literal is the real number it denotes: the rounding to
  binary64, with the overflow to infinity of a literal beyond the range, and the limit
  recent interpreters put on the number of digits of an \<open>int\<close> are not modelled.
\<close>

definition is_digit :: "char \<Rightarrow> bool" where
  "is_digit c = (c \<in> set ''0123456789'')"

definition digit_val :: "char \<Rightarrow> nat" where
  "digit_val c = of_char c - 48"

fun digitpart :: "string \<Rightarrow> bool" where
  \<comment> \<open>digits, with single underscores allowed between two digits\<close>
  "digitpart [] = False"
| "digitpart [c] = is_digit c"
| "digitpart (c # d # cs) =
     (is_digit c \<and> (if d = CHR ''_'' then digitpart cs else digitpart (d # cs)))"

definition digits_value :: "string \<Rightarrow> nat" where
  "digits_value s = foldl (\<lambda>n c. 10 * n + digit_val c) 0 (filter is_digit s)"

definition parse_sign :: "string \<Rightarrow> bool \<times> string" where
  \<comment> \<open>an optional sign: whether it is a minus, and what follows it\<close>
  "parse_sign s =
     (case s of
        [] \<Rightarrow> (False, [])
      | c # cs \<Rightarrow> if c = CHR ''-'' then (True, cs) else if c = CHR ''+'' then (False, cs)
                  else (False, s))"

definition parse_int :: "string \<Rightarrow> int option" where
  \<comment> \<open>\<open>int(s)\<close> in base 10: \<open>None\<close> stands for \<open>ValueError\<close>\<close>
  "parse_int s0 =
     (let (neg, s) = parse_sign (strip s0) in
      if digitpart s then Some (if neg then - int (digits_value s) else int (digits_value s))
      else None)"

definition lower :: "string \<Rightarrow> string" where
  \<comment> \<open>\<open>s.lower()\<close> on the ASCII letters\<close>
  "lower s =
     map (\<lambda>c. case map_of (zip ''ABCDEFGHIJKLMNOPQRSTUVWXYZ'' ''abcdefghijklmnopqrstuvwxyz'') c of
                 None \<Rightarrow> c | Some l \<Rightarrow> l) s"

definition parse_mantissa :: "string \<Rightarrow> real option" where
  \<comment> \<open>\<open>digitpart ["."]\<close> or \<open>[digitpart] "." digitpart\<close>\<close>
  "parse_mantissa m =
     (let ipart = takeWhile (\<lambda>c. c \<noteq> CHR ''.'') m;
          fr = dropWhile (\<lambda>c. c \<noteq> CHR ''.'') m
      in case fr of
           [] \<Rightarrow> if digitpart ipart then Some (real (digits_value ipart)) else None
         | _ # fpart \<Rightarrow>
             if (ipart = [] \<or> digitpart ipart) \<and> (fpart = [] \<or> digitpart fpart) \<and> (ipart \<noteq> [] \<or> fpart \<noteq> [])
             then Some (real (digits_value ipart)
                        + real (digits_value fpart) / 10 ^ length (filter is_digit fpart))
             else None)"

definition parse_exponent :: "string \<Rightarrow> int option" where
  \<comment> \<open>what follows the mantissa: nothing, or \<open>e\<close> or \<open>E\<close>, an optional sign and digits\<close>
  "parse_exponent ex =
     (case ex of
        [] \<Rightarrow> Some 0
      | _ # rest \<Rightarrow>
          (let (neg, d) = parse_sign rest in
           if digitpart d then Some (if neg then - int (digits_value d) else int (digits_value d))
           else None))"

definition parse_float :: "string \<Rightarrow> pyfloat option" where
  \<comment> \<open>\<open>float(s)\<close>: \<open>None\<close> stands for \<open>ValueError\<close>\<close>
  "parse_float s0 =
     (let (neg, s) = parse_sign (strip s0) in
      if lower s = ''inf'' \<or> lower s = ''infinity'' then Some (if neg then NInf else PInf)
      else if lower s = ''nan'' then Some NaN
      else
        (case (parse_mantissa (takeWhile (\<lambda>c. c \<noteq> CHR ''e'' \<and> c \<noteq> CHR ''E'') s),
               parse_exponent (dropWhile (\<lambda>c. c \<noteq> CHR ''e'' \<and> c \<noteq> CHR ''E'') s)) of
           (Some m, Some e) \<Rightarrow>
             (let v = (if 0 \<le> e then m * 10 ^ nat e else m / 10 ^ nat (- e))
              in Some (Fin (if neg then - v else v)))
         | _ \<Rightarrow> None))"

fun py_float :: "json \<Rightarrow> exn + pyfloat" where
  \<comment> \<open>\<open>float(v)\<close>; an int beyond the range of a float raises \<open>OverflowError\<close>\<close>
  "py_float (JFloat f) = Inr f"
| "py_float (JInt i) =
     (if \<bar>i\<bar> < 2 ^ 1024 - 2 ^ 970 then Inr (Fin (of_int i)) else Inl OverflowError)"
| "py_float (JBool b) = Inr (Fin (if b then 1 else 0))"
| "py_float (JStr s) = (case parse_float s of None \<Rightarrow> Inl ValueError | Some f \<Rightarrow> Inr f)"
| "py_float _ = Inl TypeError"

fun py_int :: "json \<Rightarrow> exn + int" where
  \<comment> \<open>\<open>int(v)\<close>; a float is truncated towards zero\<close>
  "py_int (JInt i) = Inr i"
| "py_int (JBool b) = Inr (if b then 1 else 0)"
| "py_int (JFloat (Fin r)) = Inr (if 0 \<le> r then \<lfloor>r\<rfloor> else \<lceil>r\<rceil>)"
| "py_int (JFloat NaN) = Inl ValueError"
| "py_int (JFloat _) = Inl OverflowError"
| "py_int (JStr s) = (case parse_int s of None \<Rightarrow> Inl ValueError | Some i \<Rightarrow> Inr i)"
| "py_int _ = Inl TypeError"

section \<open>Feature Router\<close>

definition catch :: "(exn \<Rightarrow> bool) \<Rightarrow> 'a prog \<Rightarrow> (exn \<Rightarrow> 'a prog) \<Rightarrow> 'a prog" where
  \<comment> \<open>\<open>try: body except C as e: handler\<close>, where \<open>caught\<close> tells the instances of \<open>C\<close>\<close>
  "catch caught body handler w =
     (case body w of
        (Inl e, w') \<Rightarrow> if caught e then handler e w' else (Inl e, w')
      | (Inr x, w') \<Rightarrow> (Inr x, w'))"

fun for_each :: "('a \<Rightarrow> unit prog) \<Rightarrow> 'a list \<Rightarrow> unit prog" where
  \<comment> \<open>\<open>for x in xs: body\<close>\<close>
  "for_each body [] = return ()"
| "for_each body (x # xs) = bind (body x) (\<lambda>_. for_each body xs)"

definition fmt :: "env \<Rightarrow> json \<Rightarrow> string" where
  \<comment> \<open>a value inside an f-string: a string stands for itself\<close>
  "fmt env v = (case v of JStr s \<Rightarrow> s | _ \<Rightarrow> str_of env v)"

definition set_field :: "env \<Rightarrow> msg \<Rightarrow> string \<Rightarrow> json \<Rightarrow> msg prog" where
  \<comment> \<open>\<open>m.name = v\<close>: the setter of the message class checks the value\<close>
  "set_field env m name v =
     (case field_check env (msg_class m) name v of
        Some e \<Rightarrow> raise e
      | None \<Rightarrow> return (Msg (msg_class m) (msg_fields m @ [(name, Val v)])))"

definition set_float :: "env \<Rightarrow> msg \<Rightarrow> string \<Rightarrow> json \<Rightarrow> string \<Rightarrow> msg prog" where
  \<comment> \<open>\<open>m.name = float(props.get(key, 0.0))\<close>\<close>
  "set_float env m name props key =
     bind (lift (py_get props key (JFloat (Fin 0)))) (\<lambda>v.
     bind (lift (py_float v)) (\<lambda>x.
     set_field env m name (JFloat x)))"

definition set_int :: "env \<Rightarrow> msg \<Rightarrow> string \<Rightarrow> json \<Rightarrow> string \<Rightarrow> msg prog" where
  \<comment> \<open>\<open>m.name = int(props.get(key, 0))\<close>\<close>
  "set_int env m name props key =
     bind (lift (py_get props key (JInt 0))) (\<lambda>v.
     bind (lift (py_int v)) (\<lambda>i.
     set_field env m name (JInt i)))"

definition set_bool :: "env \<Rightarrow> msg \<Rightarrow> string \<Rightarrow> json \<Rightarrow> string \<Rightarrow> msg prog" where
  \<comment> \<open>\<open>m.name = bool(props.get(key, False))\<close>\<close>
  "set_bool env m name props key =
     bind (lift (py_get props key (JBool False))) (\<lambda>v.
     set_field env m name (JBool (py_bool v)))"

definition set_raw :: "env \<Rightarrow> msg \<Rightarrow> string \<Rightarrow> json \<Rightarrow> string \<Rightarrow> string \<Rightarrow> msg prog" where
  \<comment> \<open>\<open>m.name = props.get(key, dflt)\<close> with a string default: the value is not coerced\<close>
  "set_raw env m name props key dflt =
     bind (lift (py_get props key (JStr dflt))) (\<lambda>v.
     set_field env m name v)"

definition set_sub :: "msg \<Rightarrow> string \<Rightarrow> msg \<Rightarrow> msg" where
  \<comment> \<open>\<open>m.name = sub\<close> for a message \<open>sub\<close> of the class the field has\<close>
  "set_sub m name sub = Msg (msg_class m) (msg_fields m @ [(name, Sub sub)])"

definition properties_of :: "json \<Rightarrow> string \<Rightarrow> json prog" where
  \<comment> \<open>\<open>features[key].get('properties', {})\<close>\<close>
  "properties_of features key =
     bind (lift (py_getitem features key)) (\<lambda>feature.
     lift (py_get feature ''properties'' (JDict [])))"

definition publish :: "env \<Rightarrow> publisher \<Rightarrow> msg \<Rightarrow> unit prog" where
  \<comment> \<open>\<open>pub.publish(m)\<close> of the bus\<close>
  "publish env pub m =
     (case publish_check env pub m of
        Some e \<Rightarrow> raise e
      | None \<Rightarrow> emit (Publish pub m))"

definition send :: "env \<Rightarrow> json \<Rightarrow> string \<Rightarrow> string \<Rightarrow> msg \<Rightarrow> unit prog" where
  \<comment> \<open>the three statements that end every branch:
      \<open>pub = self.get_or_create_publisher(K, f"{thing_id}/suffix")\<close>, \<open>pub.publish(m)\<close> and
      the info line, where \<open>K\<close> is the class of \<open>m\<close> and \<open>label\<close> names \<open>m\<close> in the line\<close>
  "send env thing_id suffix label m =
     bind (get_or_create_publisher env (msg_class m) (fmt env thing_id @ ''/'' @ suffix)) (\<lambda>pub.
     bind (publish env pub m) (\<lambda>_.
     logger Info (Published thing_id label m)))"

definition when_present :: "json \<Rightarrow> string \<Rightarrow> unit prog \<Rightarrow> unit prog" where
  \<comment> \<open>\<open>if key in obj: body\<close>\<close>
  "when_present obj key body =
     bind (lift (py_contains obj key)) (\<lambda>present. if present then body else return ())"

definition process_location :: "env \<Rightarrow> json \<Rightarrow> json \<Rightarrow> unit prog" where
  "process_location env thing_id attributes =
     when_present attributes ''location''
       (bind (lift (py_getitem attributes ''location'')) (\<lambda>location.
        bind (set_float env (Msg Point []) ''x'' location ''longitude'') (\<lambda>point_msg.
        bind (set_float env point_msg ''y'' location ''latitude'') (\<lambda>point_msg.
        bind (set_float env point_msg ''z'' location ''elevation'') (\<lambda>point_msg.
        bind (set_field env (Msg AssetMetadata []) ''asset_id'' thing_id) (\<lambda>metadata_msg.
        bind (set_raw env metadata_msg ''type'' attributes ''asset_type'' '''') (\<lambda>metadata_msg.
        send env thing_id ''metadata'' ''metadata_msg''
          (set_sub metadata_msg ''location'' point_msg))))))))"

definition process_temperature :: "env \<Rightarrow> json \<Rightarrow> json \<Rightarrow> unit prog" where
  "process_temperature env thing_id features =
     when_present features ''temperature''
       (bind (properties_of features ''temperature'') (\<lambda>temp.
        bind (set_float env (Msg Temperature []) ''temperature'' temp ''value'') (\<lambda>temp_msg.
        send env thing_id ''sensor/temperature'' ''temp_msg'' temp_msg)))"

definition process_traffic_light :: "env \<Rightarrow> json \<Rightarrow> json \<Rightarrow> unit prog" where
  "process_traffic_light env thing_id features =
     when_present features ''traffic_light_status''
       (bind (properties_of features ''traffic_light_status'') (\<lambda>traffic_light.
        bind (set_raw env (Msg TrafficLight []) ''current_state'' traffic_light
                ''current_state'' ''unknown'') (\<lambda>traffic_light_msg.
        bind (set_float env traffic_light_msg ''time_to_change'' traffic_light
                ''time_to_change'') (\<lambda>traffic_light_msg.
        send env thing_id ''traffic_light_status'' ''traffic_light_msg'' traffic_light_msg))))"

definition process_humidity :: "env \<Rightarrow> json \<Rightarrow> json \<Rightarrow> unit prog" where
  "process_humidity env thing_id features =
     when_present features ''humidity''
       (bind (properties_of features ''humidity'') (\<lambda>hum.
        bind (set_float env (Msg Humidity []) ''humidity'' hum ''value'') (\<lambda>hum_msg.
        send env thing_id ''sensor/humidity'' ''hum_msg'' hum_msg)))"

definition process_pressure :: "env \<Rightarrow> json \<Rightarrow> json \<Rightarrow> unit prog" where
  "process_pressure env thing_id features =
     when_present features ''pressure''
       (bind (properties_of features ''pressure'') (\<lambda>pre.
        bind (set_float env (Msg Pressure []) ''pressure'' pre ''value'') (\<lambda>pre_msg.
        send env thing_id ''sensor/pressure'' ''pre_msg'' pre_msg)))"

definition process_imu :: "env \<Rightarrow> json \<Rightarrow> json \<Rightarrow> unit prog" where
  "process_imu env thing_id features =
     when_present features ''imu''
       (bind (properties_of features ''imu'') (\<lambda>imu.
        bind (set_float env (Msg Imu []) ''linear_acceleration_x'' imu ''accel_x'') (\<lambda>imu_msg.
        bind (set_float env imu_msg ''linear_acceleration_y'' imu ''accel_y'') (\<lambda>imu_msg.
        bind (set_float env imu_msg ''linear_acceleration_z'' imu ''accel_z'') (\<lambda>imu_msg.
        bind (set_float env imu_msg ''angular_velocity_x'' imu ''gyro_x'') (\<lambda>imu_msg.
        bind (set_float env imu_msg ''angular_velocity_y'' imu ''gyro_y'') (\<lambda>imu_msg.
        bind (set_float env imu_msg ''angular_velocity_z'' imu ''gyro_z'') (\<lambda>imu_msg.
        send env thing_id ''sensor/imu'' ''imu_msg'' imu_msg))))))))"

definition process_alert :: "env \<Rightarrow> json \<Rightarrow> string \<times> json \<Rightarrow> unit prog" where
  \<comment> \<open>the body of the loop over \<open>inbox.items()\<close>\<close>
  "process_alert env thing_id item =
     (case item of (message_id, message) \<Rightarrow>
        bind (lift (py_get message ''type'' (JStr ''unknown''))) (\<lambda>ty.
        bind (set_field env (Msg Alert []) ''message''
                (JStr (fmt env thing_id @ '':'' @ fmt env ty))) (\<lambda>alert_msg.
        bind (set_int env alert_msg ''severity'' message ''severity'') (\<lambda>alert_msg.
        send env thing_id ''alerts'' ''alert_msg'' alert_msg))))"

definition process_alerts :: "env \<Rightarrow> json \<Rightarrow> json \<Rightarrow> unit prog" where
  "process_alerts env thing_id features =
     when_present features ''alerts''
       (bind (properties_of features ''alerts'') (\<lambda>inbox.
        bind (lift (py_items inbox)) (\<lambda>items.
        for_each (process_alert env thing_id) items)))"

definition process_relationship :: "env \<Rightarrow> json \<Rightarrow> string \<times> json \<Rightarrow> unit prog" where
  \<comment> \<open>the body of the loop over \<open>relationships.items()\<close>\<close>
  "process_relationship env thing_id item =
     (case item of (rel_type, rel_data) \<Rightarrow>
        bind (set_field env (Msg Relationship []) ''child_thing_id'' thing_id) (\<lambda>rel_msg.
        bind (set_raw env rel_msg ''parent_thing_id'' rel_data ''target'' '''') (\<lambda>rel_msg.
        bind (set_field env rel_msg ''relationship_type'' (JStr rel_type)) (\<lambda>rel_msg.
        send env thing_id ''relationships'' ''rel_msg'' rel_msg))))"

definition process_relationships :: "env \<Rightarrow> json \<Rightarrow> json \<Rightarrow> unit prog" where
  "process_relationships env thing_id features =
     when_present features ''relationships''
       (bind (properties_of features ''relationships'') (\<lambda>relationships.
        bind (lift (py_items relationships)) (\<lambda>items.
        for_each (process_relationship env thing_id) items)))"

definition process_status :: "env \<Rightarrow> json \<Rightarrow> json \<Rightarrow> unit prog" where
  "process_status env thing_id features =
     when_present features ''status''
       (bind (properties_of features ''status'') (\<lambda>status.
        bind (set_field env (Msg MachineStatus []) ''machine_id'' thing_id) (\<lambda>status_msg.
        bind (set_raw env status_msg ''status'' status ''value'' '''') (\<lambda>status_msg.
        bind (set_float env status_msg ''uptime'' status ''uptime'') (\<lambda>status_msg.
        bind (set_float env status_msg ''efficiency'' status ''efficiency'') (\<lambda>status_msg.
        send env thing_id ''status'' ''status_msg'' status_msg))))))"

definition process_environment :: "env \<Rightarrow> json \<Rightarrow> json \<Rightarrow> unit prog" where
  "process_environment env thing_id features =
     when_present features ''environment''
       (bind (properties_of features ''environment'') (\<lambda>env_props.
        bind (set_float env (Msg EnvironmentalData []) ''air_quality_index'' env_props
                ''aqi'') (\<lambda>env_msg.
        bind (set_float env env_msg ''noise_level'' env_props ''noise'') (\<lambda>env_msg.
        bind (set_float env env_msg ''light_intensity'' env_props ''light'') (\<lambda>env_msg.
        bind (set_float env env_msg ''co2_level'' env_props ''co2'') (\<lambda>env_msg.
        send env thing_id ''sensor/environment'' ''env_msg'' env_msg))))))"

definition process_traffic :: "env \<Rightarrow> json \<Rightarrow> json \<Rightarrow> unit prog" where
  "process_traffic env thing_id features =
     when_present features ''traffic''
       (bind (properties_of features ''traffic'') (\<lambda>traffic.
        bind (set_int env (Msg TrafficData []) ''vehicle_count'' traffic ''count'') (\<lambda>traffic_msg.
        bind (set_float env traffic_msg ''average_speed'' traffic ''avg_speed'') (\<lambda>traffic_msg.
        bind (set_int env traffic_msg ''congestion_level'' traffic ''congestion'') (\<lambda>traffic_msg.
        send env thing_id ''traffic'' ''traffic_msg'' traffic_msg)))))"

definition process_crop :: "env \<Rightarrow> json \<Rightarrow> json \<Rightarrow> unit prog" where
  "process_crop env thing_id features =
     when_present features ''crop''
       (bind (properties_of features ''crop'') (\<lambda>crop.
        bind (set_raw env (Msg CropData []) ''crop_type'' crop ''type'' '''') (\<lambda>crop_msg.
        bind (set_float env crop_msg ''soil_moisture'' crop ''moisture'') (\<lambda>crop_msg.
        bind (set_float env crop_msg ''soil_ph'' crop ''ph'') (\<lambda>crop_msg.
        bind (set_float env crop_msg ''growth_stage'' crop ''growth'') (\<lambda>crop_msg.
        send env thing_id ''sensor/crop'' ''crop_msg'' crop_msg))))))"

definition process_water :: "env \<Rightarrow> json \<Rightarrow> json \<Rightarrow> unit prog" where
  "process_water env thing_id features =
     when_present features ''water''
       (bind (properties_of features ''water'') (\<lambda>water.
        bind (set_float env (Msg WaterManagement []) ''water_level'' water ''level'') (\<lambda>water_msg.
        bind (set_float env water_msg ''flow_rate'' water ''flow'') (\<lambda>water_msg.
        bind (set_float env water_msg ''turbidity'' water ''turbidity'') (\<lambda>water_msg.
        bind (set_bool env water_msg ''valve_status'' water ''valve_open'') (\<lambda>water_msg.
        send env thing_id ''sensor/water'' ''water_msg'' water_msg))))))"

definition process_energy :: "env \<Rightarrow> json \<Rightarrow> json \<Rightarrow> unit prog" where
  "process_energy env thing_id features =
     when_present features ''energy''
       (bind (properties_of features ''energy'') (\<lambda>energy.
        bind (set_float env (Msg EnergyConsumption []) ''total_consumption'' energy
                ''total'') (\<lambda>energy_msg.
        bind (set_float env energy_msg ''renewable_percentage'' energy
                ''renewable'') (\<lambda>energy_msg.
        bind (set_float env energy_msg ''grid_load'' energy ''grid_load'') (\<lambda>energy_msg.
        send env thing_id ''energy'' ''energy_msg'' energy_msg)))))"

definition process_production :: "env \<Rightarrow> json \<Rightarrow> json \<Rightarrow> unit prog" where
  "process_production env thing_id features =
     when_present features ''production''
       (bind (properties_of features ''production'') (\<lambda>prod.
        bind (set_field env (Msg ProductionLine []) ''line_id'' thing_id) (\<lambda>prod_msg.
        bind (set_int env prod_msg ''units_produced'' prod ''units'') (\<lambda>prod_msg.
        bind (set_int env prod_msg ''defect_count'' prod ''defects'') (\<lambda>prod_msg.
        bind (set_float env prod_msg ''overall_equipment_effectiveness'' prod
                ''oee'') (\<lambda>prod_msg.
        send env thing_id ''production'' ''prod_msg'' prod_msg))))))"

definition process_features :: "env \<Rightarrow> json \<Rightarrow> json \<Rightarrow> unit prog" where
  \<comment> \<open>the branches on \<open>features\<close>, in the order of the source\<close>
  "process_features env thing_id features =
     bind (process_temperature env thing_id features) (\<lambda>_.
     bind (process_traffic_light env thing_id features) (\<lambda>_.
     bind (process_humidity env thing_id features) (\<lambda>_.
     bind (process_pressure env thing_id features) (\<lambda>_.
     bind (process_imu env thing_id features) (\<lambda>_.
     bind (process_alerts env thing_id features) (\<lambda>_.
     bind (process_relationships env thing_id features) (\<lambda>_.
     bind (process_status env thing_id features) (\<lambda>_.
     bind (process_environment env thing_id features) (\<lambda>_.
     bind (process_traffic env thing_id features) (\<lambda>_.
     bind (process_crop env thing_id features) (\<lambda>_.
     bind (process_water env thing_id features) (\<lambda>_.
     bind (process_energy env thing_id features) (\<lambda>_.
     process_production env thing_id features)))))))))))))"

definition process_thing_body :: "env \<Rightarrow> json \<Rightarrow> unit prog" where
  \<comment> \<open>the \<open>try\<close> block of \<open>process_thing\<close>\<close>
  "process_thing_body env thing =
     bind (if debug env then logger Debug (ProcessingThing thing) else return ()) (\<lambda>_.
     bind (lift (py_get thing ''thingId'' (JStr ''''))) (\<lambda>thing_id.
     bind (lift (py_get thing ''attributes'' (JDict []))) (\<lambda>attributes.
     bind (lift (py_get thing ''features'' (JDict []))) (\<lambda>features.
     bind (process_location env thing_id attributes) (\<lambda>_.
     process_features env thing_id features)))))"

definition process_thing_failed :: "env \<Rightarrow> json \<Rightarrow> exn \<Rightarrow> unit prog" where
  \<comment> \<open>the \<open>except Exception as e\<close> block of \<open>process_thing\<close>\<close>
  "process_thing_failed env thing e =
     bind (logger Error (ErrorProcessing e)) (\<lambda>_.
     if debug env then logger Debug (ThingCausedError thing) else return ())"

definition process_thing :: "env \<Rightarrow> json \<Rightarrow> unit prog" where
  "process_thing env thing =
     catch (\<lambda>e. True) (process_thing_body env thing) (process_thing_failed env thing)"

section \<open>Stream Supervisor\<close>

definition handle_event :: "env \<Rightarrow> event \<Rightarrow> unit prog" where
  \<comment> \<open>the body of the loop over the decoded events; the lookup of \<open>data\<close> stands for
      \<open>if 'data' in event\<close> together with the reads of \<open>event['data']\<close>\<close>
  "handle_event env event =
     bind (if debug env then logger Debug (ReceivedEvent event) else return ()) (\<lambda>_.
     case map_of event ''data'' of
       None \<Rightarrow> return ()
     | Some data \<Rightarrow>
         catch (\<lambda>e. e = JSONDecodeError)
           (bind (lift (json_loads env data)) (\<lambda>thing_data.
            process_thing env thing_data))
           (\<lambda>e. if data \<noteq> [] then logger Warn (NonJsonData data) else return ()))"

definition consume :: "env \<Rightarrow> (exn + string) list \<Rightarrow> unit prog" where
  \<comment> \<open>\<open>async for event in self.sse_parse(response.content)\<close>: the events are handled in
      their order, and an exception that ends the generator is raised after them\<close>
  "consume env content =
     (case sse_parse content of
        (events, ending) \<Rightarrow>
          bind (for_each (handle_event env) events) (\<lambda>_.
          case ending of None \<Rightarrow> return () | Some e \<Rightarrow> raise e))"

text \<open>
  What the outside does to one connection attempt: \<open>session.get\<close> raises, or it answers with
  a status and a stream of lines.
\<close>

datatype attempt = Refused exn | Response int "(exn + string) list"

definition connection :: "env \<Rightarrow> attempt \<Rightarrow> bool prog" where
  \<comment> \<open>the \<open>try\<close> block of the loop; the value tells whether it ended with \<open>continue\<close>\<close>
  "connection env a =
     bind (logger Info ConnectingTo) (\<lambda>_.
     bind (emit Connect) (\<lambda>_.
     case a of
       Refused e \<Rightarrow> raise e
     | Response status content \<Rightarrow>
         if status \<noteq> 200 then
           bind (logger Error (FailedToConnect status)) (\<lambda>_.
           bind (emit (Sleep 5)) (\<lambda>_.
           return True))
         else
           bind (logger Info Connected) (\<lambda>_.
           bind (consume env content) (\<lambda>_.
           return False))))"

definition iteration :: "env \<Rightarrow> attempt \<Rightarrow> unit prog" where
  \<comment> \<open>one round of \<open>while rclpy.ok()\<close>\<close>
  "iteration env a =
     bind (catch (\<lambda>e. True) (connection env a)
             (\<lambda>e. bind (logger Error (ErrorInConnection e)) (\<lambda>_. return False)))
       (\<lambda>continued.
          if continued then return ()
          else bind (logger Info ConnectionClosed) (\<lambda>_. emit (Sleep 5)))"

text \<open>
  The loop runs one round each time \<open>rclpy.ok()\<close> answers true. Its input is the list of
  what the outside does to the attempts of these rounds; the list ends where \<open>rclpy.ok()\<close>
  answers false, or at any earlier point of a run that goes on.
\<close>

definition subscribe_to_changes :: "env \<Rightarrow> attempt list \<Rightarrow> unit prog" where
  "subscribe_to_changes env attempts = for_each (iteration env) attempts"

section \<open>Observations\<close>

fun is_timing :: "effect \<Rightarrow> bool" where
  "is_timing Connect = True"
| "is_timing (Sleep n) = True"
| "is_timing _ = False"

definition timing :: "effect list \<Rightarrow> effect list" where
  \<comment> \<open>the connection attempts and the delays among the effects\<close>
  "timing es = filter is_timing es"

fun is_publish :: "effect \<Rightarrow> bool" where
  "is_publish (Publish p m) = True"
| "is_publish _ = False"

definition published :: "effect list \<Rightarrow> effect list" where
  \<comment> \<open>the messages handed to the bus among the effects\<close>
  "published es = filter is_publish es"

definition quiet_step :: "world \<Rightarrow> world \<Rightarrow> bool" where
  \<comment> \<open>from the first world to the second, effects were only added, none of them a connection
      attempt or a delay, the registry only grew, and the creation events stayed in step
      with it\<close>
  "quiet_step w w' =
     ((\<exists>es. effects w' = effects w @ es \<and> timing es = [])
      \<and> topic_publishers w \<subseteq>\<^sub>m topic_publishers w'
      \<and> (created_once w \<longrightarrow> created_once w'))"

definition behaved :: "'a prog \<Rightarrow> bool" where
  "behaved p = (\<forall>w. quiet_step w (snd (p w)))"

definition never_raises :: "'a prog \<Rightarrow> bool" where
  \<comment> \<open>the statement never raises\<close>
  "never_raises p = (\<forall>w. \<exists>x w'. p w = (Inr x, w'))"

definition sample_env :: env where
  \<comment> \<open>an environment for the examples: diagnostics on, message classes and a bus that accept
      everything, and a \<open>json.loads\<close> that knows two documents\<close>
  "sample_env =
     \<lparr>debug = True,
      field_check = (\<lambda>k name v. None),
      create_check = (\<lambda>k topic. None),
      publish_check = (\<lambda>p m. None),
      json_loads = (\<lambda>s. if s = ''{}'' then Inr (JDict [])
                          else if s = ''7'' then Inr (JInt 7)
                          else Inl JSONDecodeError),
      str_of = (\<lambda>v. ''?'')\<rparr>"

fun is_creation :: "log_text \<Rightarrow> bool" where
  "is_creation (CreatedPublisher t) = True"
| "is_creation _ = False"

section \<open>Examples\<close>

definition registry_named :: "world \<Rightarrow> bool" where
  \<comment> \<open>every publisher of the registry was created for the topic it is stored under\<close>
  "registry_named w = (\<forall>t p. topic_publishers w t = Some p \<longrightarrow> pub_topic p = t)"



definition temperature_thing :: json where
  \<comment> \<open>the payload of the end-to-end example\<close>
  "temperature_thing =
     JDict [(''thingId'', JStr ''org.x:dev1''),
       (''features'', JDict [
          (''temperature'', JDict [(''properties'', JDict [(''value'', JStr ''21.5'')])])])]"


definition prop_or :: "(string \<times> json) list \<Rightarrow> string \<Rightarrow> json \<Rightarrow> json" where
  \<comment> \<open>\<open>props.get(key, dflt)\<close> on the items of a dict\<close>
  "prop_or props key dflt = (case map_of props key of None \<Rightarrow> dflt | Some v \<Rightarrow> v)"

definition alert_text :: "env \<Rightarrow> json \<Rightarrow> (string \<times> json) list \<Rightarrow> string" where
  \<comment> \<open>the composite string \<open>{thing_id}:{type}\<close> of an alert entry with the items \<open>entry\<close>\<close>
  "alert_text env thing_id entry =
     fmt env thing_id @ '':'' @ fmt env (prop_or entry ''type'' (JStr ''unknown''))"

definition alert_msg :: "env \<Rightarrow> json \<Rightarrow> (string \<times> json) list \<Rightarrow> int \<Rightarrow> msg" where
  \<comment> \<open>the message built for an alert entry with the items \<open>entry\<close> and the severity \<open>s\<close>\<close>
  "alert_msg env thing_id entry s =
     Msg Alert
       [(''message'', Val (JStr (alert_text env thing_id entry))), (''severity'', Val (JInt s))]"




definition water_msg :: "pyfloat \<Rightarrow> pyfloat \<Rightarrow> pyfloat \<Rightarrow> bool \<Rightarrow> msg" where
  \<comment> \<open>the message of the feature \<open>water\<close> with its four fields\<close>
  "water_msg level flow turbidity valve =
     Msg WaterManagement
       [(''water_level'', Val (JFloat level)), (''flow_rate'', Val (JFloat flow)),
        (''turbidity'', Val (JFloat turbidity)), (''valve_status'', Val (JBool valve))]"




section \<open>Properties of the Topic Sanitizer\<close>

lemma topic_char_slash: "topic_char CHR ''/''"
  by (simp add: topic_char_def)

lemma topic_char_underscore: "topic_char CHR ''_''"
  by (simp add: topic_char_def)

lemma topic_char_not_colon: "topic_char c \<Longrightarrow> c \<noteq> CHR '':''"
  by (auto simp: topic_char_def)

lemma topic_char_not_dot: "topic_char c \<Longrightarrow> c \<noteq> CHR ''.''"
  by (auto simp: topic_char_def)

lemma re_sub_invalid_chars: "list_all topic_char (re_sub_invalid s)"
  by (induction s) (simp_all add: re_sub_invalid_def topic_char_underscore)

lemma re_sub_invalid_id: "list_all topic_char s \<Longrightarrow> re_sub_invalid s = s"
  by (induction s) (simp_all add: re_sub_invalid_def)

lemma replace_char_id: "\<forall>c \<in> set s. c \<noteq> old \<Longrightarrow> replace_char old new s = s"
  by (induction s) (simp_all add: replace_char_def)

lemma sanitize_matches: "matches_topic_re (sanitize_topic_name x)"
proof -
  let ?n = "replace_char CHR ''.'' CHR ''_'' (replace_char CHR '':'' CHR ''_'' x)"
  show ?thesis
  proof (cases "startswith_slash ?n")
    case True
    then obtain cs where n: "?n = CHR ''/'' # cs"
      by (auto simp: startswith_slash_def split: list.splits)
    have "sanitize_topic_name x = re_sub_invalid (CHR ''/'' # cs)"
      using True n by (simp add: sanitize_topic_name_def Let_def)
    also have "\<dots> = CHR ''/'' # re_sub_invalid cs"
      by (simp add: re_sub_invalid_def topic_char_slash)
    finally show ?thesis
      by (simp add: matches_topic_re_def re_sub_invalid_chars)
  next
    case False
    have "sanitize_topic_name x = re_sub_invalid (CHR ''/'' # ?n)"
      using False by (simp add: sanitize_topic_name_def Let_def)
    also have "\<dots> = CHR ''/'' # re_sub_invalid ?n"
      by (simp add: re_sub_invalid_def topic_char_slash)
    finally show ?thesis
      by (simp add: matches_topic_re_def re_sub_invalid_chars)
  qed
qed

lemma sanitize_fixpoint:
  assumes "matches_topic_re s"
  shows "sanitize_topic_name s = s"
proof -
  from assms obtain cs where s: "s = CHR ''/'' # cs" and cs: "list_all topic_char cs"
    by (auto simp: matches_topic_re_def split: list.splits)
  have all: "list_all topic_char s"
    using s cs by (simp add: topic_char_slash)
  have "replace_char CHR '':'' CHR ''_'' s = s"
    using all by (intro replace_char_id) (auto simp: list_all_iff dest: topic_char_not_colon)
  moreover have "replace_char CHR ''.'' CHR ''_'' s = s"
    using all by (intro replace_char_id) (auto simp: list_all_iff dest: topic_char_not_dot)
  moreover have "startswith_slash s"
    using s by (simp add: startswith_slash_def)
  ultimately show ?thesis
    using all by (simp add: sanitize_topic_name_def Let_def re_sub_invalid_id)
qed

text \<open>
  Claim C8. For every input string the sanitized topic begins with \<open>/\<close> and otherwise holds
  only characters of \<open>[0-9a-zA-Z_/~{}]\<close>, that is, it matches \<open>^/[0-9a-zA-Z_/~{}]*$\<close>; and
  \<open>org.acme:thing-1\<close> is sanitized to \<open>/org_acme_thing_1\<close>.
\<close>

theorem sanitize_topic_name_valid:
  "matches_topic_re (sanitize_topic_name x) \<and>
   sanitize_topic_name ''org.acme:thing-1'' = ''/org_acme_thing_1''"
proof
  show "matches_topic_re (sanitize_topic_name x)"
    by (rule sanitize_matches)
  show "sanitize_topic_name ''org.acme:thing-1'' = ''/org_acme_thing_1''"
    by (simp add: sanitize_topic_name_def replace_char_def startswith_slash_def
        re_sub_invalid_def topic_char_def)
qed

text \<open>
  Claim C9. The Topic Sanitizer is idempotent: sanitizing a sanitized name changes nothing.
\<close>

theorem sanitize_topic_name_idempotent:
  "sanitize_topic_name (sanitize_topic_name x) = sanitize_topic_name x"
  by (rule sanitize_fixpoint) (rule sanitize_matches)

section \<open>Properties of the Publisher Registry\<close>

lemma get_or_create_publisher_hit:
  assumes "topic_publishers w (sanitize_topic_name raw) = Some p"
  shows "get_or_create_publisher env k raw w = (Inr p, w)"
  using assms
  by (simp add: get_or_create_publisher_def Let_def bind_def return_def lookup_publisher_def
      dom_def)

lemma get_or_create_publisher_fail:
  assumes "topic_publishers w (sanitize_topic_name raw) = None"
    and "create_check env k (sanitize_topic_name raw) = Some e"
  shows "get_or_create_publisher env k raw w = (Inl e, w)"
  using assms
  by (simp add: get_or_create_publisher_def Let_def bind_def create_publisher_def dom_def)

lemma get_or_create_publisher_miss:
  assumes "topic_publishers w (sanitize_topic_name raw) = None"
    and "create_check env k (sanitize_topic_name raw) = None"
  shows "get_or_create_publisher env k raw w =
     (Inr (Publisher (n_created w) k (sanitize_topic_name raw)),
      w\<lparr>n_created := Suc (n_created w),
        topic_publishers := (topic_publishers w)(sanitize_topic_name raw \<mapsto>
          Publisher (n_created w) k (sanitize_topic_name raw)),
        effects := effects w @ [Log Info (CreatedPublisher (sanitize_topic_name raw))]\<rparr>)"
  using assms
  by (simp add: get_or_create_publisher_def Let_def bind_def create_publisher_def dom_def
      store_publisher_def logger_def emit_def lookup_publisher_def)

lemma get_or_create_publisher_cases:
  obtains
    (hit) p where "topic_publishers w (sanitize_topic_name raw) = Some p"
      and "get_or_create_publisher env k raw w = (Inr p, w)"
  | (fail) e where "topic_publishers w (sanitize_topic_name raw) = None"
      and "get_or_create_publisher env k raw w = (Inl e, w)"
  | (miss) "topic_publishers w (sanitize_topic_name raw) = None"
      and "get_or_create_publisher env k raw w =
        (Inr (Publisher (n_created w) k (sanitize_topic_name raw)),
         w\<lparr>n_created := Suc (n_created w),
           topic_publishers := (topic_publishers w)(sanitize_topic_name raw \<mapsto>
             Publisher (n_created w) k (sanitize_topic_name raw)),
           effects := effects w @ [Log Info (CreatedPublisher (sanitize_topic_name raw))]\<rparr>)"
proof (cases "topic_publishers w (sanitize_topic_name raw)")
  case (Some p)
  then show ?thesis using hit get_or_create_publisher_hit by blast
next
  case None
  show ?thesis
  proof (cases "create_check env k (sanitize_topic_name raw)")
    case (Some e)
    then show ?thesis using None fail get_or_create_publisher_fail by blast
  next
    case None': None
    show ?thesis using None None' miss get_or_create_publisher_miss by blast
  qed
qed

lemma get_or_create_publisher_grows:
  assumes "get_or_create_publisher env k raw w = (r, w')"
  shows "topic_publishers w \<subseteq>\<^sub>m topic_publishers w'"
  using assms
  by (cases rule: get_or_create_publisher_cases [of w raw env k]) (auto simp: map_le_def)



lemma get_or_create_publisher_created_once:
  assumes "get_or_create_publisher env k raw w = (r, w')" and "created_once w"
  shows "created_once w'"
proof (cases rule: get_or_create_publisher_cases [of w raw env k])
  case (hit p)
  then show ?thesis using assms by simp
next
  case (fail e)
  then show ?thesis using assms by simp
next
  case miss
  let ?s = "sanitize_topic_name raw"
  have eff: "effects w' = effects w @ [Log Info (CreatedPublisher ?s)]"
    and reg: "topic_publishers w' = (topic_publishers w)(?s \<mapsto> Publisher (n_created w) k ?s)"
    using miss assms(1) by auto
  have old: "creations t w = (if t \<in> dom (topic_publishers w) then 1 else 0)" for t
    using assms(2) by (simp add: created_once_def)
  have "creations t w' = (if t \<in> dom (topic_publishers w') then 1 else 0)" for t
  proof (cases "t = ?s")
    case True
    have "creations ?s w = 0"
      using old [of ?s] miss(1) by (simp add: dom_def)
    then show ?thesis
      using True by (simp add: creations_def eff reg)
  next
    case False
    then have "creations t w' = creations t w"
      by (simp add: creations_def eff)
    then show ?thesis
      using False old [of t] by (simp add: reg)
  qed
  then show ?thesis
    by (simp add: created_once_def)
qed

section \<open>Properties of the Stream Decoder\<close>

lemma split_on_not_Nil: "split_on sep s \<noteq> []"
  by (induction s) (auto split: list.splits)







lemma sse_loop_no_blank:
  "\<forall>l \<in> set tail. \<not> blank l \<Longrightarrow> sse_loop buffer (map Inr tail) = ([], None)"
  by (induction tail arbitrary: buffer) (simp_all add: blank_def Let_def)

lemma sse_loop_tail:
  "\<forall>l \<in> set tail. \<not> blank l \<Longrightarrow>
     sse_loop buffer (content @ map Inr tail) = sse_loop buffer content"
proof (induction buffer content rule: sse_loop.induct)
  case (1 buffer)
  then show ?case by (simp add: sse_loop_no_blank)
next
  case (2 buffer e content)
  then show ?case by simp
next
  case (3 buffer raw content)
  then show ?case by (simp add: Let_def split: prod.splits)
qed




text \<open>
  Claim C4. The six lines of the example yield the two events of the example in their order;
  and lines after the last blank line are never turned into an event: a stream yields what
  it yields without any run of non-blank lines at its end.
\<close>

theorem sse_parse_example_and_unfinished_block:
  \<open>sse_parse [Inr ''id: 1'', Inr ''data: {"a":1}'', Inr '''',
              Inr ''id: 2'', Inr ''data: {}'', Inr ''''] =
     ([[(''id'', ''1''), (''data'', ''{"a":1}'')], [(''id'', ''2''), (''data'', ''{}'')]], None)
   \<and> (\<forall>content tail. (\<forall>l \<in> set tail. \<not> blank l) \<longrightarrow>
         sse_parse (content @ map Inr tail) = sse_parse content)\<close>
proof (intro conjI allI impI)
  show \<open>sse_parse [Inr ''id: 1'', Inr ''data: {"a":1}'', Inr '''',
              Inr ''id: 2'', Inr ''data: {}'', Inr ''''] =
     ([[(''id'', ''1''), (''data'', ''{"a":1}'')], [(''id'', ''2''), (''data'', ''{}'')]], None)\<close>
    by (simp add: sse_parse_def strip_def is_space_def parse_block_def add_field_def
        has_colon_def split_colon_def)
  show "sse_parse (content @ map Inr tail) = sse_parse content"
    if "\<forall>l \<in> set tail. \<not> blank l" for content tail
    using that by (simp add: sse_parse_def sse_loop_tail)
qed

theorem sse_parse_unfinished_block_witness:
  "\<not> blank ''id: 3'' \<and> \<not> blank ''data: 7''
    \<and> sse_parse ([Inr ''id: 1'', Inr ''''] @ map Inr [''id: 3'', ''data: 7'']) =
        ([[(''id'', ''1'')]], None)"
proof -
  have nb: "\<forall>l \<in> set [''id: 3'', ''data: 7'']. \<not> blank l"
    by (simp add: blank_def strip_def is_space_def)
  have short: "sse_parse [Inr ''id: 1'', Inr ''''] = ([[(''id'', ''1'')]], None)"
    by (simp add: sse_parse_def strip_def is_space_def parse_block_def add_field_def
        has_colon_def split_colon_def)
  have "sse_parse ([Inr ''id: 1'', Inr ''''] @ map Inr [''id: 3'', ''data: 7'']) =
      sse_parse [Inr ''id: 1'', Inr '''']"
    using nb sse_parse_example_and_unfinished_block by blast
  then have "sse_parse ([Inr ''id: 1'', Inr ''''] @ map Inr [''id: 3'', ''data: 7'']) =
      ([[(''id'', ''1'')]], None)"
    by (simp only: short)
  moreover have "\<not> blank ''id: 3''" "\<not> blank ''data: 7''"
    using nb by simp_all
  ultimately show ?thesis
    by (intro conjI)
qed


section \<open>Properties of the Feature Router\<close>

lemma timing_append: "timing (xs @ ys) = timing xs @ timing ys"
  by (simp add: timing_def)

lemma quiet_step_refl: "quiet_step w w"
  by (simp add: quiet_step_def timing_def)

lemma quiet_step_trans:
  assumes "quiet_step w1 w2" and "quiet_step w2 w3"
  shows "quiet_step w1 w3"
proof -
  from assms obtain es fs where es: "effects w2 = effects w1 @ es" "timing es = []"
    and fs: "effects w3 = effects w2 @ fs" "timing fs = []"
    by (auto simp: quiet_step_def)
  have "effects w3 = effects w1 @ (es @ fs)" "timing (es @ fs) = []"
    using es fs by (simp_all add: timing_append)
  then have "\<exists>gs. effects w3 = effects w1 @ gs \<and> timing gs = []"
    by blast
  moreover have "topic_publishers w1 \<subseteq>\<^sub>m topic_publishers w3"
    using assms by (auto simp: quiet_step_def intro: map_le_trans)
  moreover have "created_once w1 \<longrightarrow> created_once w3"
    using assms by (simp add: quiet_step_def)
  ultimately show ?thesis
    by (simp add: quiet_step_def)
qed

lemma behaved_return: "behaved (return x)"
  by (simp add: behaved_def return_def quiet_step_refl)

lemma behaved_raise: "behaved (raise e)"
  by (simp add: behaved_def raise_def quiet_step_refl)

lemma behaved_lift: "behaved (lift r)"
  by (simp add: behaved_def lift_def quiet_step_refl)

lemma behaved_bind:
  assumes "behaved m" and "\<And>x. behaved (f x)"
  shows "behaved (bind m f)"
proof -
  have "quiet_step w (snd (bind m f w))" for w
  proof (cases "m w")
    case (Pair r w1)
    have first: "quiet_step w w1"
      using assms(1) Pair by (metis behaved_def snd_conv)
    show ?thesis
    proof (cases r)
      case (Inl e)
      then show ?thesis using Pair first by (simp add: bind_def)
    next
      case (Inr x)
      have "quiet_step w1 (snd (f x w1))"
        using assms(2) by (simp add: behaved_def)
      then show ?thesis
        using Pair Inr first by (auto simp: bind_def intro: quiet_step_trans)
    qed
  qed
  then show ?thesis by (simp add: behaved_def)
qed

lemma behaved_catch:
  assumes "behaved body" and "\<And>e. behaved (handler e)"
  shows "behaved (catch caught body handler)"
proof -
  have "quiet_step w (snd (catch caught body handler w))" for w
  proof (cases "body w")
    case (Pair r w1)
    have first: "quiet_step w w1"
      using assms(1) Pair by (metis behaved_def snd_conv)
    show ?thesis
    proof (cases r)
      case (Inr x)
      then show ?thesis using Pair first by (simp add: catch_def)
    next
      case (Inl e)
      have "quiet_step w1 (snd (handler e w1))"
        using assms(2) by (simp add: behaved_def)
      then show ?thesis
        using Pair Inl first by (auto simp: catch_def intro: quiet_step_trans)
    qed
  qed
  then show ?thesis by (simp add: behaved_def)
qed

lemma behaved_for_each:
  assumes "\<And>x. behaved (body x)"
  shows "behaved (for_each body xs)"
  by (induction xs) (simp_all add: behaved_return behaved_bind assms)

lemma behaved_if: "behaved p \<Longrightarrow> behaved q \<Longrightarrow> behaved (if c then p else q)"
  by simp

lemma behaved_logger:
  assumes "\<not> is_creation t"
  shows "behaved (logger l t)"
proof -
  have "Log l t \<noteq> Log Info (CreatedPublisher s)" for s
    using assms by auto
  then show ?thesis
    by (simp add: behaved_def logger_def emit_def quiet_step_def timing_def created_once_def
      creations_def)
qed

lemma behaved_publish: "behaved (publish env pub m)"
  by (auto simp: behaved_def publish_def raise_def emit_def quiet_step_def timing_def
      created_once_def creations_def split: option.splits)

lemma behaved_get_or_create_publisher: "behaved (get_or_create_publisher env k raw)"
proof -
  have "quiet_step w (snd (get_or_create_publisher env k raw w))" for w
  proof (cases "get_or_create_publisher env k raw w")
    case (Pair r w')
    have "\<exists>es. effects w' = effects w @ es \<and> timing es = []"
      using Pair
      by (cases rule: get_or_create_publisher_cases [of w raw env k]) (auto simp: timing_def)
    then show ?thesis
      using Pair get_or_create_publisher_grows [OF Pair]
        get_or_create_publisher_created_once [OF Pair]
      by (simp add: quiet_step_def)
  qed
  then show ?thesis by (simp add: behaved_def)
qed

lemma behaved_set_field: "behaved (set_field env m name v)"
  by (simp add: set_field_def behaved_raise behaved_return split: option.splits)

lemmas behaved_basic =
  behaved_return behaved_raise behaved_lift behaved_bind behaved_catch behaved_for_each
  behaved_if behaved_publish behaved_get_or_create_publisher behaved_set_field

lemma behaved_set_float: "behaved (set_float env m name props key)"
  unfolding set_float_def by (intro behaved_basic)

lemma behaved_set_int: "behaved (set_int env m name props key)"
  unfolding set_int_def by (intro behaved_basic)

lemma behaved_set_bool: "behaved (set_bool env m name props key)"
  unfolding set_bool_def by (intro behaved_basic)

lemma behaved_set_raw: "behaved (set_raw env m name props key dflt)"
  unfolding set_raw_def by (intro behaved_basic)

lemma behaved_properties_of: "behaved (properties_of features key)"
  unfolding properties_of_def by (intro behaved_basic)

lemma behaved_send: "behaved (send env thing_id suffix label m)"
  unfolding send_def by (intro behaved_basic behaved_logger) simp

lemma behaved_when_present: "behaved body \<Longrightarrow> behaved (when_present obj key body)"
  unfolding when_present_def by (intro behaved_basic) 

lemmas behaved_steps =
  behaved_basic behaved_set_float behaved_set_int behaved_set_bool behaved_set_raw
  behaved_properties_of behaved_send behaved_when_present

lemma behaved_process_location: "behaved (process_location env thing_id attributes)"
  unfolding process_location_def by (intro behaved_steps)

lemma behaved_process_alert: "behaved (process_alert env thing_id item)"
  unfolding process_alert_def by (cases item) (simp, intro behaved_steps)

lemma behaved_process_relationship: "behaved (process_relationship env thing_id item)"
  unfolding process_relationship_def by (cases item) (simp, intro behaved_steps)

lemma behaved_process_features: "behaved (process_features env thing_id features)"
  unfolding process_features_def process_temperature_def process_traffic_light_def
    process_humidity_def process_pressure_def process_imu_def process_alerts_def
    process_relationships_def process_status_def process_environment_def process_traffic_def
    process_crop_def process_water_def process_energy_def process_production_def
  by (intro behaved_steps behaved_process_alert behaved_process_relationship)

lemma behaved_process_thing: "behaved (process_thing env thing)"
  unfolding process_thing_def process_thing_body_def process_thing_failed_def
  by (intro behaved_steps behaved_logger behaved_process_location behaved_process_features)
     simp_all


lemma never_raises_emit: "never_raises (emit e)"
  by (simp add: never_raises_def emit_def)

lemma never_raises_return: "never_raises (return x)"
  by (simp add: never_raises_def return_def)

lemma never_raises_bind:
  assumes "never_raises m" and "\<And>x. never_raises (f x)"
  shows "never_raises (bind m f)"
proof -
  have "\<exists>y w'. bind m f w = (Inr y, w')" for w
  proof -
    obtain x w1 where "m w = (Inr x, w1)"
      using assms(1) unfolding never_raises_def by blast
    moreover obtain y w2 where "f x w1 = (Inr y, w2)"
      using assms(2) [of x] unfolding never_raises_def by blast
    ultimately show ?thesis by (simp add: bind_def)
  qed
  then show ?thesis by (simp add: never_raises_def)
qed


lemma never_raises_for_each:
  assumes "\<And>x. never_raises (body x)"
  shows "never_raises (for_each body xs)"
  by (induction xs) (simp_all add: never_raises_return never_raises_bind assms)







section \<open>Running the model\<close>

lemma bind_return: "bind (return x) f = f x"
  by (rule ext) (simp add: bind_def return_def)

lemma bind_raise: "bind (raise e) f = raise e"
  by (rule ext) (simp add: bind_def raise_def)

lemma bind_lift_Inr: "bind (lift (Inr x)) f = f x"
  by (rule ext) (simp add: bind_def lift_def)

lemma bind_lift_Inl: "bind (lift (Inl e)) f = raise e"
  by (rule ext) (simp add: bind_def lift_def raise_def)

lemma bind_return_right: "bind m return = m"
  by (rule ext) (simp add: bind_def return_def split: prod.splits sum.splits)

lemma bind_emit: "bind (emit e) f w = f () (w\<lparr>effects := effects w @ [e]\<rparr>)"
  by (simp add: bind_def emit_def)

lemma when_present_dict:
  "when_present (JDict kvs) key body = (if key \<in> set (map fst kvs) then body else return ())"
  by (simp add: when_present_def bind_lift_Inr)

lemmas run_simps =
  bind_return bind_raise bind_lift_Inr bind_lift_Inl bind_emit when_present_dict

lemmas parse_simps =
  parse_float_def parse_int_def parse_sign_def parse_mantissa_def parse_exponent_def
  digits_value_def is_digit_def digit_val_def lower_def strip_def is_space_def

lemmas sanitize_simps =
  sanitize_topic_name_def replace_char_def startswith_slash_def re_sub_invalid_def
  topic_char_def

lemmas branch_defs =
  process_location_def process_features_def
  process_temperature_def process_traffic_light_def
  process_humidity_def process_pressure_def process_imu_def process_alerts_def
  process_relationships_def process_status_def process_environment_def process_traffic_def
  process_crop_def process_water_def process_energy_def process_production_def






section \<open>Properties of single branches\<close>

lemma published_append: "published (xs @ ys) = published xs @ published ys"
  by (simp add: published_def)

lemma send_ok:
  assumes create: "create_check env (msg_class m) (sanitize_topic_name (fmt env tid @ ''/'' @ suffix)) = None"
    and pub: "\<forall>p. publish_check env p m = None"
  shows "\<exists>p w'. send env tid suffix label m w = (Inr (), w')
    \<and> topic_publishers w' (sanitize_topic_name (fmt env tid @ ''/'' @ suffix)) = Some p
    \<and> (\<forall>q. topic_publishers w (sanitize_topic_name (fmt env tid @ ''/'' @ suffix)) = Some q \<longrightarrow> p = q)
    \<and> published (effects w') = published (effects w) @ [Publish p m]
    \<and> (registry_named w \<longrightarrow> registry_named w' \<and> pub_topic p = sanitize_topic_name (fmt env tid @ ''/'' @ suffix))"
proof -
  let ?raw = "fmt env tid @ ''/'' @ suffix"
  let ?t = "sanitize_topic_name ?raw"
  show ?thesis
  proof (cases "topic_publishers w ?t")
    case (Some q)
    have got: "get_or_create_publisher env (msg_class m) ?raw w = (Inr q, w)"
      using Some by (rule get_or_create_publisher_hit)
    have "send env tid suffix label m w =
        (Inr (), w\<lparr>effects := effects w @ [Publish q m, Log Info (Published tid label m)]\<rparr>)"
      using got pub by (simp add: send_def bind_def publish_def emit_def logger_def)
    then show ?thesis
      using Some by (auto simp: published_def registry_named_def)
  next
    case None
    let ?p = "Publisher (n_created w) (msg_class m) ?t"
    have got: "get_or_create_publisher env (msg_class m) ?raw w =
        (Inr ?p, w\<lparr>n_created := Suc (n_created w),
          topic_publishers := (topic_publishers w)(?t \<mapsto> ?p),
          effects := effects w @ [Log Info (CreatedPublisher ?t)]\<rparr>)"
      using None create by (rule get_or_create_publisher_miss)
    have "send env tid suffix label m w =
        (Inr (), w\<lparr>n_created := Suc (n_created w),
          topic_publishers := (topic_publishers w)(?t \<mapsto> ?p),
          effects := effects w @ [Log Info (CreatedPublisher ?t), Publish ?p m,
            Log Info (Published tid label m)]\<rparr>)"
      using got pub by (simp add: send_def bind_def publish_def emit_def logger_def)
    then show ?thesis
      using None by (auto simp: published_def registry_named_def)
  qed
qed

lemma debug_line_published:
  "\<exists>w0. (if debug env then logger Debug t else return ()) w = (Inr (), w0)
    \<and> topic_publishers w0 = topic_publishers w
    \<and> published (effects w0) = published (effects w)
    \<and> (registry_named w \<longrightarrow> registry_named w0)"
  by (simp add: logger_def emit_def return_def published_def registry_named_def)

lemma process_thing_body_temperature:
  assumes "field_check env Temperature ''temperature'' (JFloat (Fin 21.5)) = None"
  shows "process_thing_body env temperature_thing =
     bind (if debug env then logger Debug (ProcessingThing temperature_thing) else return ())
       (\<lambda>_. send env (JStr ''org.x:dev1'') ''sensor/temperature'' ''temp_msg''
          (Msg Temperature [(''temperature'', Val (JFloat (Fin 21.5)))]))"
  using assms
  by (simp add: process_thing_body_def branch_defs properties_of_def set_float_def
      set_field_def run_simps bind_return_right parse_simps temperature_thing_def)

lemma sanitize_temperature_topic:
  "sanitize_topic_name (fmt env (JStr ''org.x:dev1'') @ ''/'' @ ''sensor/temperature'') =
     ''/org_x_dev1/sensor/temperature''"
  by (simp add: fmt_def sanitize_simps)

text \<open>
  Claim C6. On the payload of the example, when the message class accepts the value and the
  bus accepts the calls, \<open>process_thing\<close> returns normally and hands exactly one message to
  the bus: its publisher is the one registered for \<open>/org_x_dev1/sensor/temperature\<close> and was
  created for that topic, and its field \<open>temperature\<close> is the float 21.5 that the string
  coerces to.
\<close>

theorem process_thing_temperature:
  assumes "field_check env Temperature ''temperature'' (JFloat (Fin 21.5)) = None"
    and "create_check env Temperature ''/org_x_dev1/sensor/temperature'' = None"
    and "\<forall>p. publish_check env p (Msg Temperature [(''temperature'', Val (JFloat (Fin 21.5)))]) = None"
    and "registry_named w"
  shows "\<exists>p w'. process_thing env temperature_thing w = (Inr (), w')
    \<and> published (effects w') = published (effects w) @
         [Publish p (Msg Temperature [(''temperature'', Val (JFloat (Fin 21.5)))])]
    \<and> topic_publishers w' ''/org_x_dev1/sensor/temperature'' = Some p
    \<and> pub_topic p = ''/org_x_dev1/sensor/temperature''
    \<and> py_float (JStr ''21.5'') = Inr (Fin 21.5)"
proof -
  let ?m = "Msg Temperature [(''temperature'', Val (JFloat (Fin 21.5)))]"
  obtain w0 where w0: "(if debug env then logger Debug (ProcessingThing temperature_thing)
        else return ()) w = (Inr (), w0)"
    and same: "published (effects w0) = published (effects w)"
    and named: "registry_named w0"
    using debug_line_published [of env "ProcessingThing temperature_thing" w] assms(4) by blast
  have create: "create_check env (msg_class ?m)
      (sanitize_topic_name (fmt env (JStr ''org.x:dev1'') @ ''/'' @ ''sensor/temperature'')) = None"
    using assms(2) by (simp only: sanitize_temperature_topic msg.sel)
  obtain p w' where sent: "send env (JStr ''org.x:dev1'') ''sensor/temperature'' ''temp_msg'' ?m w0
      = (Inr (), w')"
    and reg: "topic_publishers w' ''/org_x_dev1/sensor/temperature'' = Some p"
    and out: "published (effects w') = published (effects w0) @ [Publish p ?m]"
    and topic: "pub_topic p = ''/org_x_dev1/sensor/temperature''"
    using send_ok [OF create assms(3), of "''temp_msg''" w0] named
    unfolding sanitize_temperature_topic by blast
  have "process_thing_body env temperature_thing w = (Inr (), w')"
    using w0 sent by (simp add: process_thing_body_temperature [OF assms(1)] bind_def)
  then have "process_thing env temperature_thing w = (Inr (), w')"
    by (simp add: process_thing_def catch_def)
  moreover have "py_float (JStr ''21.5'') = Inr (Fin 21.5)"
    by (simp add: parse_simps)
  ultimately show ?thesis
    using reg out same topic by auto
qed

theorem process_thing_temperature_witness:
  "\<exists>p w'. process_thing sample_env temperature_thing init_world = (Inr (), w')
    \<and> published (effects w') =
         [Publish p (Msg Temperature [(''temperature'', Val (JFloat (Fin 21.5)))])]
    \<and> pub_topic p = ''/org_x_dev1/sensor/temperature''"
  using process_thing_temperature [of sample_env init_world]
  by (simp add: sample_env_def init_world_def registry_named_def published_def) blast

















section \<open>Properties of the Stream Supervisor\<close>

lemma behaved_handle_event: "behaved (handle_event env event)"
proof (cases "map_of event ''data''")
  case None
  then show ?thesis
    unfolding handle_event_def
    by (auto intro!: behaved_steps behaved_logger)
next
  case (Some d)
  then show ?thesis
    unfolding handle_event_def
    by (auto intro!: behaved_steps behaved_logger behaved_process_thing)
qed

lemma behaved_consume: "behaved (consume env content)"
  unfolding consume_def
  by (auto intro!: behaved_steps behaved_handle_event split: prod.splits option.splits)

lemma consume_timing:
  assumes "consume env content w = (r, w')"
  shows "timing (effects w') = timing (effects w)"
proof -
  have "quiet_step w w'"
    using behaved_consume [of env content] assms by (metis behaved_def snd_conv)
  then show ?thesis
    by (auto simp: quiet_step_def timing_append)
qed

lemma iteration_failed_status:
  assumes "status \<noteq> 200"
  shows "iteration env (Response status content) w =
     (Inr (), w\<lparr>effects := effects w @
        [Log Info ConnectingTo, Connect, Log Error (FailedToConnect status), Sleep 5]\<rparr>)"
  using assms
  by (simp add: iteration_def connection_def catch_def bind_def logger_def emit_def return_def)

lemma iteration_exception:
  assumes "connection env a w = (Inl e, w1)"
  shows "iteration env a w =
     (Inr (), w1\<lparr>effects := effects w1 @
        [Log Error (ErrorInConnection e), Log Info ConnectionClosed, Sleep 5]\<rparr>)"
  using assms
  by (simp add: iteration_def catch_def bind_def logger_def emit_def return_def)

lemma iteration_closed:
  assumes "connection env a w = (Inr False, w1)"
  shows "iteration env a w =
     (Inr (), w1\<lparr>effects := effects w1 @ [Log Info ConnectionClosed, Sleep 5]\<rparr>)"
  using assms
  by (simp add: iteration_def catch_def bind_def logger_def emit_def return_def)

lemma connection_refused:
  "connection env (Refused e) w =
     (Inl e, w\<lparr>effects := effects w @ [Log Info ConnectingTo, Connect]\<rparr>)"
  by (simp add: connection_def bind_def logger_def emit_def raise_def)

lemma connection_streaming:
  "\<exists>r w1. connection env (Response 200 content) w = (r, w1)
     \<and> (r = Inr False \<or> (\<exists>e. r = Inl e))
     \<and> timing (effects w1) = timing (effects w) @ [Connect]"
proof -
  let ?w2 = "w\<lparr>effects := effects w @ [Log Info ConnectingTo, Connect, Log Info Connected]\<rparr>"
  obtain r w3 where c: "consume env content ?w2 = (r, w3)"
    by (cases "consume env content ?w2") blast
  have t: "timing (effects w3) = timing (effects w) @ [Connect]"
    using consume_timing [OF c] by (simp add: timing_def)
  show ?thesis
  proof (cases r)
    case (Inl e)
    then have "connection env (Response 200 content) w = (Inl e, w3)"
      using c by (simp add: connection_def bind_def logger_def emit_def)
    then show ?thesis using t by simp
  next
    case (Inr u)
    then have "connection env (Response 200 content) w = (Inr False, w3)"
      using c by (simp add: connection_def bind_def logger_def emit_def return_def)
    then show ?thesis using t by simp
  qed
qed

lemma iteration_timing:
  "\<exists>w'. iteration env a w = (Inr (), w')
     \<and> timing (effects w') = timing (effects w) @ [Connect, Sleep 5]"
proof (cases a)
  case (Refused e)
  show ?thesis
    unfolding Refused iteration_exception [OF connection_refused]
    by (simp add: timing_def)
next
  case (Response status content)
  show ?thesis
  proof (cases "status = 200")
    case False
    then show ?thesis
      unfolding Response by (simp add: iteration_failed_status timing_def)
  next
    case True
    obtain r w1 where c: "connection env (Response 200 content) w = (r, w1)"
      and r: "r = Inr False \<or> (\<exists>e. r = Inl e)"
      and t: "timing (effects w1) = timing (effects w) @ [Connect]"
      using connection_streaming by blast
    from r show ?thesis
    proof
      assume "r = Inr False"
      then show ?thesis
        using c t unfolding Response True by (simp add: iteration_closed timing_def)
    next
      assume "\<exists>e. r = Inl e"
      then obtain e where "r = Inl e" by blast
      then show ?thesis
        using c t unfolding Response True by (simp add: iteration_exception timing_def)
    qed
  qed
qed

lemma subscribe_timing:
  "\<exists>w'. for_each (iteration env) attempts w = (Inr (), w')
     \<and> timing (effects w') =
         timing (effects w) @ concat (map (\<lambda>a. [Connect, Sleep 5]) attempts)"
proof (induction attempts arbitrary: w)
  case Nil
  then show ?case by (simp add: return_def)
next
  case (Cons a attempts)
  obtain w1 where one: "iteration env a w = (Inr (), w1)"
    and t1: "timing (effects w1) = timing (effects w) @ [Connect, Sleep 5]"
    using iteration_timing by blast
  obtain w' where rest: "for_each (iteration env) attempts w1 = (Inr (), w')"
    and t2: "timing (effects w') =
      timing (effects w1) @ concat (map (\<lambda>a. [Connect, Sleep 5]) attempts)"
    using Cons.IH by blast
  have "for_each (iteration env) (a # attempts) w = (Inr (), w')"
    using one rest by (simp add: bind_def)
  then show ?case
    using t1 t2 by simp
qed

text \<open>
  Claim C1. Whatever happens to the connection attempts of a run, the loop does not raise and
  does not stop before the running signal ends: it makes one attempt per round and waits 5
  after each of them, nothing else being a delay. A round whose attempt is answered with a
  status other than 200 logs the failure and waits 5; a round in which an exception is
  raised, at the connection or while the stream is consumed, logs the exception and the
  closing of the connection and waits 5.
\<close>

theorem subscribe_to_changes_retries:
  "(\<exists>w'. subscribe_to_changes env attempts w = (Inr (), w')
      \<and> timing (effects w') =
          timing (effects w) @ concat (map (\<lambda>a. [Connect, Sleep 5]) attempts))
   \<and> (\<forall>status content. status \<noteq> 200 \<longrightarrow>
         iteration env (Response status content) w =
           (Inr (), w\<lparr>effects := effects w @
              [Log Info ConnectingTo, Connect, Log Error (FailedToConnect status), Sleep 5]\<rparr>))
   \<and> (\<forall>a e w1. connection env a w = (Inl e, w1) \<longrightarrow>
         iteration env a w =
           (Inr (), w1\<lparr>effects := effects w1 @
              [Log Error (ErrorInConnection e), Log Info ConnectionClosed, Sleep 5]\<rparr>))
   \<and> (\<forall>content events e. sse_parse content = (events, Some e) \<longrightarrow>
         (\<exists>e' w1. connection env (Response 200 content) w = (Inl e', w1)))"
proof (intro conjI allI impI)
  show "\<exists>w'. subscribe_to_changes env attempts w = (Inr (), w')
      \<and> timing (effects w') =
          timing (effects w) @ concat (map (\<lambda>a. [Connect, Sleep 5]) attempts)"
    unfolding subscribe_to_changes_def by (rule subscribe_timing)
  show "iteration env (Response status content) w =
      (Inr (), w\<lparr>effects := effects w @
        [Log Info ConnectingTo, Connect, Log Error (FailedToConnect status), Sleep 5]\<rparr>)"
    if "status \<noteq> 200" for status content
    using that by (rule iteration_failed_status)
  show "iteration env a w =
      (Inr (), w1\<lparr>effects := effects w1 @
        [Log Error (ErrorInConnection e), Log Info ConnectionClosed, Sleep 5]\<rparr>)"
    if "connection env a w = (Inl e, w1)" for a e w1
    using that by (rule iteration_exception)
  show "\<exists>e' w1. connection env (Response 200 content) w = (Inl e', w1)"
    if ending: "sse_parse content = (events, Some e)" for content events e
  proof -
    let ?w2 = "w\<lparr>effects := effects w @ [Log Info ConnectingTo, Connect, Log Info Connected]\<rparr>"
    obtain r w3 where loop: "for_each (handle_event env) events ?w2 = (r, w3)"
      by (cases "for_each (handle_event env) events ?w2") blast
    have "\<exists>e'. consume env content ?w2 = (Inl e', w3)"
      using ending loop by (cases r) (simp_all add: consume_def bind_def raise_def)
    then obtain e' where "consume env content ?w2 = (Inl e', w3)" by blast
    then have "connection env (Response 200 content) w = (Inl e', w3)"
      by (simp add: connection_def bind_def logger_def emit_def)
    then show ?thesis by blast
  qed
qed

theorem subscribe_to_changes_retries_witness:
  "(\<exists>w'. subscribe_to_changes sample_env
        [Response 503 [], Refused (OtherError ''down''),
         Response 200 [Inr ''data: {}'', Inr [], Inl (OtherError ''reset'')]] init_world
        = (Inr (), w')
      \<and> timing (effects w') = [Connect, Sleep 5, Connect, Sleep 5, Connect, Sleep 5])
   \<and> iteration sample_env (Response 503 []) init_world =
       (Inr (), init_world\<lparr>effects := effects init_world @
          [Log Info ConnectingTo, Connect, Log Error (FailedToConnect 503), Sleep 5]\<rparr>)
   \<and> iteration sample_env (Refused (OtherError ''down'')) init_world =
       (Inr (), init_world\<lparr>effects :=
          [Log Info ConnectingTo, Connect, Log Error (ErrorInConnection (OtherError ''down'')),
           Log Info ConnectionClosed, Sleep 5]\<rparr>)
   \<and> (\<exists>e' w1. connection sample_env
         (Response 200 [Inr ''data: {}'', Inr [], Inl (OtherError ''reset'')]) init_world
         = (Inl e', w1))"
proof (intro conjI)
  let ?attempts = "[Response 503 [], Refused (OtherError ''down''),
    Response 200 [Inr ''data: {}'', Inr [], Inl (OtherError ''reset'')]]"
  note retries = subscribe_to_changes_retries [of sample_env ?attempts init_world]
  show "\<exists>w'. subscribe_to_changes sample_env ?attempts init_world = (Inr (), w')
      \<and> timing (effects w') = [Connect, Sleep 5, Connect, Sleep 5, Connect, Sleep 5]"
    using retries [THEN conjunct1] by (simp add: init_world_def timing_def)
  have "(503::int) \<noteq> 200"
    by simp
  then show "iteration sample_env (Response 503 []) init_world =
       (Inr (), init_world\<lparr>effects := effects init_world @
          [Log Info ConnectingTo, Connect, Log Error (FailedToConnect 503), Sleep 5]\<rparr>)"
    using retries by blast
  have "connection sample_env (Refused (OtherError ''down'')) init_world =
      (Inl (OtherError ''down''),
       init_world\<lparr>effects := effects init_world @ [Log Info ConnectingTo, Connect]\<rparr>)"
    by (rule connection_refused)
  then have "iteration sample_env (Refused (OtherError ''down'')) init_world =
      (Inr (), (init_world\<lparr>effects := effects init_world @ [Log Info ConnectingTo, Connect]\<rparr>)
        \<lparr>effects := effects (init_world\<lparr>effects := effects init_world @
            [Log Info ConnectingTo, Connect]\<rparr>) @
          [Log Error (ErrorInConnection (OtherError ''down'')), Log Info ConnectionClosed,
           Sleep 5]\<rparr>)"
    using retries by blast
  then show "iteration sample_env (Refused (OtherError ''down'')) init_world =
       (Inr (), init_world\<lparr>effects :=
          [Log Info ConnectingTo, Connect, Log Error (ErrorInConnection (OtherError ''down'')),
           Log Info ConnectionClosed, Sleep 5]\<rparr>)"
    by (simp add: init_world_def)
  have "sse_parse [Inr ''data: {}'', Inr [], Inl (OtherError ''reset'')] =
      ([[(''data'', ''{}'')]], Some (OtherError ''reset''))"
    by (simp add: sse_parse_def strip_def is_space_def parse_block_def add_field_def
        has_colon_def split_colon_def)
  then show "\<exists>e' w1. connection sample_env
         (Response 200 [Inr ''data: {}'', Inr [], Inl (OtherError ''reset'')]) init_world
         = (Inl e', w1)"
    using retries by blast
qed

section \<open>The registry across a run\<close>

















end
